theory Spec2Isabelle
  imports Complex_Main "HOL-Library.AList"
begin

section \<open>Python strings\<close>

text \<open>
  A Python \<open>str\<close> is modelled as a \<open>string\<close> whose characters are the code points
  below 256. On that range \<open>str.isspace\<close>, \<open>str.isalnum\<close> and \<open>str.lower\<close> are the
  following functions of the code point (\<open>lower\<close> always yields one character there).
\<close>

definition isspace :: "char \<Rightarrow> bool" where
  "isspace c =
     (let n = (of_char c :: nat)
      in (9 \<le> n \<and> n \<le> 13) \<or> (28 \<le> n \<and> n \<le> 32) \<or> n = 133 \<or> n = 160)"

definition isalnum :: "char \<Rightarrow> bool" where
  "isalnum c =
     (let n = (of_char c :: nat)
      in (48 \<le> n \<and> n \<le> 57) \<or> (65 \<le> n \<and> n \<le> 90) \<or> (97 \<le> n \<and> n \<le> 122)
         \<or> n = 170 \<or> n = 178 \<or> n = 179 \<or> n = 181 \<or> n = 185 \<or> n = 186
         \<or> (188 \<le> n \<and> n \<le> 190) \<or> (192 \<le> n \<and> n \<le> 214)
         \<or> (216 \<le> n \<and> n \<le> 246) \<or> (248 \<le> n \<and> n \<le> 255))"

definition lower :: "char \<Rightarrow> char" where
  "lower c =
     (let n = (of_char c :: nat)
      in if (65 \<le> n \<and> n \<le> 90) \<or> (192 \<le> n \<and> n \<le> 214) \<or> (216 \<le> n \<and> n \<le> 222)
         then char_of (n + 32) else c)"

text \<open>\<open>s.split()\<close>: the maximal runs of non-whitespace characters, in order.\<close>

fun split_acc :: "string \<Rightarrow> string \<Rightarrow> string list" where
  "split_acc w [] = (if w = [] then [] else [w])"
| "split_acc w (c # cs) =
     (if isspace c then (if w = [] then split_acc [] cs else w # split_acc [] cs)
      else split_acc (w @ [c]) cs)"

definition split :: "string \<Rightarrow> string list" where
  "split s = split_acc [] s"

text \<open>\<open>s.split(sep)\<close> for a one-character separator: empty pieces are kept.\<close>

fun split_sep_acc :: "char \<Rightarrow> string \<Rightarrow> string \<Rightarrow> string list" where
  "split_sep_acc sep w [] = [w]"
| "split_sep_acc sep w (c # cs) =
     (if c = sep then w # split_sep_acc sep [] cs else split_sep_acc sep (w @ [c]) cs)"

definition split_sep :: "char \<Rightarrow> string \<Rightarrow> string list" where
  "split_sep sep s = split_sep_acc sep [] s"

definition strip :: "string \<Rightarrow> string" where
  "strip s = rev (dropWhile isspace (rev (dropWhile isspace s)))"

fun join :: "string \<Rightarrow> string list \<Rightarrow> string" where
  "join sep [] = []"
| "join sep [x] = x"
| "join sep (x # y # ys) = x @ sep @ join sep (y # ys)"

section \<open>Resolver: \<open>iros24.py\<close>\<close>

datatype error =
    AttributeError | TypeError | KeyError | JSONDecodeError | MaxRetryError
  | ChunkedEncodingError

definition normalize_title :: "string \<Rightarrow> string" where
  "normalize_title title =
     (let normalized = map lower (filter (\<lambda>c. isalnum c \<or> isspace c) title)
      in join '' '' (split normalized))"

text \<open>
  \<open>ratio a b\<close> stands for the library call \<open>SequenceMatcher(None, a, b).ratio()\<close>, a
  number between 0 and 1.
\<close>

definition calculate_title_similarity ::
  "(string \<Rightarrow> string \<Rightarrow> real) \<Rightarrow> string \<Rightarrow> string \<Rightarrow> real" where
  "calculate_title_similarity ratio title1 title2 =
     (let norm_title1 = normalize_title title1;
          norm_title2 = normalize_title title2
      in ratio norm_title1 norm_title2)"

definition normalize_author_name :: "string \<Rightarrow> string" where
  "normalize_author_name name =
     (let normalized = map lower (filter (\<lambda>c. isalnum c \<or> isspace c) name)
      in join '' '' (split normalized))"

definition get_last_names :: "string \<Rightarrow> string set" where
  "get_last_names authors_str =
     (let authors = map strip (split_sep CHR '','' authors_str)
      in fold (\<lambda>author last_names.
                 let parts = split (strip author)
                 in if parts \<noteq> [] then insert (normalize_author_name (last parts)) last_names
                    else last_names)
              authors {})"

text \<open>
  An Atom \<open>entry\<close> element as the loop reads it. For the title, each author's name and the
  summary, \<open>None\<close> is an absent element (\<open>find\<close> returns \<open>None\<close>), \<open>Some None\<close> an
  element whose \<open>.text\<close> is \<open>None\<close>, \<open>Some (Some t)\<close> an element with text \<open>t\<close>. A link
  carries its \<open>title\<close> and \<open>href\<close> attributes, each possibly absent.
\<close>

record link =
  link_title :: "string option"
  link_href :: "string option"

record entry =
  title_elem :: "string option option"
  author_elems :: "string option option list"
  link_elems :: "link list"
  summary_elem :: "string option option"

text \<open>The list comprehension \<open>[author.find(name).text for author in ...]\<close>.\<close>

fun name_texts :: "string option option list \<Rightarrow> error + string option list" where
  "name_texts [] = Inr []"
| "name_texts (a # as) =
     (case a of
        None \<Rightarrow> Inl AttributeError
      | Some t \<Rightarrow> (case name_texts as of Inl e \<Rightarrow> Inl e | Inr ts \<Rightarrow> Inr (t # ts)))"

text \<open>\<open>sep.join(xs)\<close> raises \<open>TypeError\<close> on an item that is \<open>None\<close>.\<close>

definition py_join :: "string \<Rightarrow> string option list \<Rightarrow> error + string" where
  "py_join sep xs =
     (if None \<in> set xs then Inl TypeError else Inr (join sep (map the xs)))"

fun find_pdf_url :: "link list \<Rightarrow> error + string option" where
  "find_pdf_url [] = Inr None"
| "find_pdf_url (l # ls) =
     (if link_title l = Some ''pdf''
      then (case link_href l of None \<Rightarrow> Inl KeyError | Some h \<Rightarrow> Inr (Some h))
      else find_pdf_url ls)"

definition get_abstract :: "string option option \<Rightarrow> error + string option" where
  "get_abstract abstract_elem =
     (case abstract_elem of
        None \<Rightarrow> Inr None
      | Some None \<Rightarrow> Inl AttributeError
      | Some (Some t) \<Rightarrow> Inr (Some (strip t)))"

text \<open>
  The loop \<open>for entry in entries\<close> of \<open>search_arxiv_for_paper\<close>. An exception other than
  \<open>ParseError\<close> is not caught by the function and is the result \<open>Inl\<close>.
\<close>

fun search_entries ::
  "(string \<Rightarrow> string \<Rightarrow> real) \<Rightarrow> real \<Rightarrow> string \<Rightarrow> string set \<Rightarrow> entry list
   \<Rightarrow> error + (string option \<times> string option)" where
  "search_entries ratio min_title_similarity paper_title iros_last_names [] = Inr (None, None)"
| "search_entries ratio min_title_similarity paper_title iros_last_names (entry # entries) =
     (case title_elem entry of
        None \<Rightarrow> Inl AttributeError
      | Some None \<Rightarrow> Inl TypeError
      | Some (Some arxiv_title) \<Rightarrow>
          if calculate_title_similarity ratio paper_title arxiv_title < min_title_similarity
          then search_entries ratio min_title_similarity paper_title iros_last_names entries
          else if author_elems entry = []
          then search_entries ratio min_title_similarity paper_title iros_last_names entries
          else
            (case name_texts (author_elems entry) of
               Inl e \<Rightarrow> Inl e
             | Inr arxiv_authors \<Rightarrow>
                 (case py_join '', '' arxiv_authors of
                    Inl e \<Rightarrow> Inl e
                  | Inr joined \<Rightarrow>
                      if iros_last_names \<inter> get_last_names joined = {}
                      then search_entries ratio min_title_similarity paper_title
                             iros_last_names entries
                      else
                        (case find_pdf_url (link_elems entry) of
                           Inl e \<Rightarrow> Inl e
                         | Inr pdf_url \<Rightarrow>
                             (case get_abstract (summary_elem entry) of
                                Inl e \<Rightarrow> Inl e
                              | Inr abstract \<Rightarrow> Inr (pdf_url, abstract))))))"

text \<open>
  The whole function with its effects. \<open>session_get query max_results\<close> is the outcome of
  \<open>session.get\<close> on the query URL followed by \<open>raise_for_status\<close>: \<open>None\<close> for a
  \<open>RequestException\<close>, the response text otherwise. \<open>parse_xml\<close> is \<open>ET.fromstring\<close>
  followed by \<open>findall\<close> of the entries, \<open>None\<close> for a \<open>ParseError\<close>. The events are the
  HTTP call and the blocking sleeps, in the order in which they happen.
\<close>

datatype event = HttpGet string int | Sleep nat

definition search_arxiv_for_paper ::
  "(string \<Rightarrow> string \<Rightarrow> real) \<Rightarrow> (string \<Rightarrow> int \<Rightarrow> string option)
   \<Rightarrow> (string \<Rightarrow> entry list option)
   \<Rightarrow> string \<Rightarrow> string \<Rightarrow> int \<Rightarrow> real
   \<Rightarrow> event list \<times> (error + (string option \<times> string option))" where
  "search_arxiv_for_paper ratio session_get parse_xml paper_title paper_authors max_results
       min_title_similarity =
     (let query = ''ti:'' @ paper_title
      in case session_get query max_results of
           None \<Rightarrow> ([HttpGet query max_results], Inr (None, None))
         | Some response_text \<Rightarrow>
             ([HttpGet query max_results, Sleep 3],
              (let iros_last_names = get_last_names paper_authors
               in case parse_xml response_text of
                    None \<Rightarrow> Inr (None, None)
                  | Some entries \<Rightarrow>
                      search_entries ratio min_title_similarity paper_title
                        iros_last_names entries)))"

subsection \<open>Notions used to state the resolver's properties\<close>

text \<open>
  A candidate that conforms to source B's interface: it has a title with text, every
  author has a name with text, a link titled \<open>pdf\<close> has an \<open>href\<close>, and a summary
  element, when present, has text.
\<close>

definition wf_entry :: "entry \<Rightarrow> bool" where
  "wf_entry e =
     ((case title_elem e of Some (Some t) \<Rightarrow> True | _ \<Rightarrow> False)
      \<and> list_all (\<lambda>a. case a of Some (Some n) \<Rightarrow> True | _ \<Rightarrow> False) (author_elems e)
      \<and> list_all (\<lambda>l. link_title l = Some ''pdf'' \<longrightarrow> link_href l \<noteq> None) (link_elems e)
      \<and> summary_elem e \<noteq> Some None)"

text \<open>The title similarity of a candidate, and its set of normalized last names.\<close>

definition entry_similarity :: "(string \<Rightarrow> string \<Rightarrow> real) \<Rightarrow> string \<Rightarrow> entry \<Rightarrow> real" where
  "entry_similarity ratio paper_title e =
     (case title_elem e of
        Some (Some t) \<Rightarrow> calculate_title_similarity ratio paper_title t
      | _ \<Rightarrow> 0)"

definition entry_last_names :: "entry \<Rightarrow> string set" where
  "entry_last_names e =
     get_last_names
       (join '', '' (map (\<lambda>a. case a of Some (Some n) \<Rightarrow> n | _ \<Rightarrow> []) (author_elems e)))"

text \<open>The PDF link and the abstract that the loop returns for a candidate.\<close>

definition entry_fields :: "entry \<Rightarrow> string option \<times> string option" where
  "entry_fields e =
     (case find (\<lambda>l. link_title l = Some ''pdf'') (link_elems e) of
        None \<Rightarrow> None
      | Some l \<Rightarrow> link_href l,
      case summary_elem e of Some (Some t) \<Rightarrow> Some (strip t) | _ \<Rightarrow> None)"

definition passes_gates ::
  "(string \<Rightarrow> string \<Rightarrow> real) \<Rightarrow> real \<Rightarrow> string \<Rightarrow> string set \<Rightarrow> entry \<Rightarrow> bool" where
  "passes_gates ratio thr paper_title iros e =
     (\<not> entry_similarity ratio paper_title e < thr \<and> iros \<inter> entry_last_names e \<noteq> {})"

subsection \<open>Sample data\<close>

text \<open>
  A sample value for \<open>ratio\<close>: twice the length of the common prefix over the total
  length. Where one string is a prefix of the other, or the two share no character, this
  is the number \<open>SequenceMatcher\<close> computes.
\<close>

fun common_prefix :: "string \<Rightarrow> string \<Rightarrow> string" where
  "common_prefix (x # xs) (y # ys) = (if x = y then x # common_prefix xs ys else [])"
| "common_prefix _ _ = []"

definition sample_ratio :: "string \<Rightarrow> string \<Rightarrow> real" where
  "sample_ratio a b =
     (if length a + length b = 0 then 1
      else 2 * real (length (common_prefix a b)) / real (length a + length b))"

definition sample_other_authors :: entry where
  "sample_other_authors =
     \<lparr>title_elem = Some (Some ''deep nets!''), author_elems = [Some (Some ''Bob Lee'')],
      link_elems = [\<lparr>link_title = Some ''pdf'', link_href = Some ''u1''\<rparr>],
      summary_elem = Some (Some '' s1 '')\<rparr>"

definition sample_other_title :: entry where
  "sample_other_title =
     \<lparr>title_elem = Some (Some ''x''), author_elems = [Some (Some ''Ann He'')],
      link_elems = [\<lparr>link_title = Some ''pdf'', link_href = Some ''u2''\<rparr>],
      summary_elem = Some (Some ''s2'')\<rparr>"

definition sample_close :: entry where
  "sample_close =
     \<lparr>title_elem = Some (Some ''Deep Net''),
      author_elems = [Some (Some ''Ann He''), Some (Some ''Bo Wu'')],
      link_elems = [\<lparr>link_title = None, link_href = Some ''a3''\<rparr>,
                    \<lparr>link_title = Some ''pdf'', link_href = Some ''u3''\<rparr>],
      summary_elem = Some (Some '' s3 '')\<rparr>"

definition sample_exact :: entry where
  "sample_exact =
     \<lparr>title_elem = Some (Some ''Deep Nets''), author_elems = [Some (Some ''Ann He'')],
      link_elems = [\<lparr>link_title = Some ''pdf'', link_href = Some ''u4''\<rparr>],
      summary_elem = Some (Some ''s4'')\<rparr>"

section \<open>Record store: \<open>cvpr.py\<close>\<close>

text \<open>
  A value read by \<open>json.load\<close>. \<open>JFloat\<close> carries the number a finite float denotes; an
  object is the list of its items. \<open>json_load\<close> and \<open>json_dump\<close> stand for the library's
  \<open>json.load\<close> and \<open>json.dump\<close> on a file's text.
\<close>

datatype json =
    JNull | JBool bool | JInt int | JFloat real | JStr string
  | JArr "json list" | JObj "(string \<times> json) list"

text \<open>Python's truth value of such a value.\<close>

fun truthy :: "json \<Rightarrow> bool" where
  "truthy JNull = False"
| "truthy (JBool b) = b"
| "truthy (JInt i) = (i \<noteq> 0)"
| "truthy (JFloat r) = (r \<noteq> 0)"
| "truthy (JStr s) = (s \<noteq> [])"
| "truthy (JArr xs) = (xs \<noteq> [])"
| "truthy (JObj kvs) = (kvs \<noteq> [])"

text \<open>
  A value used as a dictionary key: numbers and booleans that are equal are the same key,
  lists and objects are unhashable.
\<close>

datatype key = KNone | KNum real | KStr string

fun dict_key :: "json \<Rightarrow> error + key" where
  "dict_key JNull = Inr KNone"
| "dict_key (JBool b) = Inr (KNum (if b then 1 else 0))"
| "dict_key (JInt i) = Inr (KNum (of_int i))"
| "dict_key (JFloat r) = Inr (KNum r)"
| "dict_key (JStr s) = Inr (KStr s)"
| "dict_key (JArr xs) = Inl TypeError"
| "dict_key (JObj kvs) = Inl TypeError"

text \<open>\<open>data[k]\<close> and \<open>data.get(k)\<close> for a string \<open>k\<close>, and \<open>for x in data\<close>.\<close>

fun subscript :: "json \<Rightarrow> string \<Rightarrow> error + json" where
  "subscript (JObj kvs) k = (case map_of kvs k of None \<Rightarrow> Inl KeyError | Some v \<Rightarrow> Inr v)"
| "subscript _ k = Inl TypeError"

definition dict_get :: "(string \<times> json) list \<Rightarrow> string \<Rightarrow> json" where
  "dict_get kvs k = (case map_of kvs k of None \<Rightarrow> JNull | Some v \<Rightarrow> v)"

fun iterate :: "json \<Rightarrow> error + json list" where
  "iterate (JArr xs) = Inr xs"
| "iterate (JObj kvs) = Inr (map (\<lambda>kv. JStr (fst kv)) kvs)"
| "iterate (JStr s) = Inr (map (\<lambda>c. JStr [c]) s)"
| "iterate _ = Inl TypeError"

text \<open>The class \<open>Paper\<close>; a field holds whatever value was assigned to it.\<close>

record paper =
  title :: json
  authors :: json
  paper_id :: json
  pdf_url :: json
  arxiv_url :: json
  abstract :: json
  supplemental_url :: json

definition to_dict :: "paper \<Rightarrow> json" where
  "to_dict p =
     JObj [(''paper_id'', paper_id p), (''title'', title p), (''authors'', authors p),
           (''pdf_url'', pdf_url p), (''arxiv_url'', arxiv_url p), (''abstract'', abstract p),
           (''supplemental_url'', supplemental_url p)]"

fun from_dict :: "json \<Rightarrow> error + paper" where
  "from_dict data =
     (case subscript data ''title'' of
        Inl e \<Rightarrow> Inl e
      | Inr t \<Rightarrow>
          (case subscript data ''authors'' of
             Inl e \<Rightarrow> Inl e
           | Inr a \<Rightarrow>
               (case data of
                  JObj kvs \<Rightarrow>
                    Inr \<lparr>title = t, authors = a, paper_id = dict_get kvs ''paper_id'',
                         pdf_url = dict_get kvs ''pdf_url'',
                         arxiv_url = dict_get kvs ''arxiv_url'',
                         abstract = dict_get kvs ''abstract'',
                         supplemental_url = dict_get kvs ''supplemental_url''\<rparr>
                | _ \<Rightarrow> Inl AttributeError)))"

text \<open>
  The files and directories the store touches, and the object \<open>PaperDatabase\<close>. Its
  dictionary \<open>papers\<close> keeps insertion order, which the written document shows: it is a
  list of items, updated with \<open>AList.update\<close> (replace in place, or append).
\<close>

record filesystem =
  dirs :: "string set"
  files :: "string \<rightharpoonup> string"

record database =
  output_dir :: string
  filename :: string
  papers :: "(key \<times> paper) list"

definition path_join :: "string \<Rightarrow> string \<Rightarrow> string" where
  "path_join a b = (if a = [] then b else if last a = CHR ''/'' then a @ b else a @ ''/'' @ b)"

text \<open>
  The loop of \<open>_load_existing_papers\<close>: the exception, if one is raised, and the dictionary
  as it stands at that point.
\<close>

fun load_loop ::
  "json list \<Rightarrow> (key \<times> paper) list \<Rightarrow> error option \<times> (key \<times> paper) list" where
  "load_loop [] ps = (None, ps)"
| "load_loop (paper_dict # rest) ps =
     (case from_dict paper_dict of
        Inl e \<Rightarrow> (Some e, ps)
      | Inr p \<Rightarrow>
          (case dict_key (title p) of
             Inl e \<Rightarrow> (Some e, ps)
           | Inr k \<Rightarrow> load_loop rest (AList.update k p ps)))"

text \<open>
  \<open>stamp\<close> is \<open>datetime.now().strftime('%Y%m%d_%H%M%S')\<close>. The files are readable regular
  files and \<open>os.makedirs\<close>, \<open>os.rename\<close> succeed.
\<close>

definition load_existing_papers ::
  "(string \<Rightarrow> error + json) \<Rightarrow> string \<Rightarrow> database \<times> filesystem \<Rightarrow> database \<times> filesystem" where
  "load_existing_papers json_load stamp st =
     (let db = fst st;
          fs = (if output_dir db \<in> dirs (snd st) then snd st
                else (snd st)\<lparr>dirs := insert (output_dir db) (dirs (snd st))\<rparr>)
      in case files fs (filename db) of
           None \<Rightarrow> (db, fs)
         | Some content \<Rightarrow>
             (let outcome =
                    (case json_load content of
                       Inl e \<Rightarrow> (Some e, papers db)
                     | Inr data \<Rightarrow>
                         (case iterate data of
                            Inl e \<Rightarrow> (Some e, papers db)
                          | Inr ds \<Rightarrow> load_loop ds (papers db)));
                  db' = db\<lparr>papers := snd outcome\<rparr>
              in case fst outcome of
                   None \<Rightarrow> (db', fs)
                 | Some e \<Rightarrow>
                     (let backup_name = filename db @ ''.bak.'' @ stamp
                      in (db', fs\<lparr>files := ((files fs)(filename db := None))
                                              (backup_name \<mapsto> content)\<rparr>))))"

text \<open>The constructor; \<open>year_suffix\<close> is \<open>str(year)[-2:]\<close>.\<close>

definition PaperDatabase ::
  "(string \<Rightarrow> error + json) \<Rightarrow> string \<Rightarrow> string \<Rightarrow> string \<Rightarrow> filesystem
   \<Rightarrow> database \<times> filesystem" where
  "PaperDatabase json_load stamp dir year_suffix fs =
     load_existing_papers json_load stamp
       (\<lparr>output_dir = dir, filename = path_join dir (''cvpr'' @ year_suffix @ ''.json''),
         papers = []\<rparr>, fs)"

definition save_to_file ::
  "(json \<Rightarrow> string) \<Rightarrow> database \<times> filesystem \<Rightarrow> database \<times> filesystem" where
  "save_to_file json_dump st =
     (let papers_data = map (\<lambda>kv. to_dict (snd kv)) (papers (fst st))
      in (fst st,
          (snd st)\<lparr>files := (files (snd st))
                               (filename (fst st) \<mapsto> json_dump (JArr papers_data))\<rparr>))"

definition save_paper ::
  "(json \<Rightarrow> string) \<Rightarrow> paper \<Rightarrow> database \<times> filesystem \<Rightarrow> error + database \<times> filesystem" where
  "save_paper json_dump p st =
     (case dict_key (title p) of
        Inl e \<Rightarrow> Inl e
      | Inr k \<Rightarrow>
          Inr (save_to_file json_dump
                 ((fst st)\<lparr>papers := AList.update k p (papers (fst st))\<rparr>, snd st)))"

definition has_paper :: "database \<Rightarrow> string \<Rightarrow> bool" where
  "has_paper db t = (map_of (papers db) (KStr t) \<noteq> None)"

text \<open>
  \<open>process_paper_element\<close>. The element's first \<open>a\<close> tag, if any, has a text and possibly
  an \<open>href\<close>. \<open>fetch_paper_details\<close> is the network call, \<open>None\<close> when the page could not
  be fetched or parsed. The first component of the result lists the links that were
  fetched.
\<close>

record anchor =
  anchor_text :: string
  anchor_href :: "string option"

definition process_paper_element ::
  "(json \<Rightarrow> string) \<Rightarrow> (string \<Rightarrow> int \<Rightarrow> paper option) \<Rightarrow> int \<Rightarrow> anchor option
   \<Rightarrow> database \<times> filesystem
   \<Rightarrow> string list \<times> (error + paper option \<times> (database \<times> filesystem))" where
  "process_paper_element json_dump fetch_paper_details paper_count paper_elem st =
     (case paper_elem of
        None \<Rightarrow> ([], Inr (None, st))
      | Some title_link \<Rightarrow>
          (let t = join '' '' (split (strip (anchor_text title_link)));
               early =
                 (if has_paper (fst st) t
                  then (case map_of (papers (fst st)) (KStr t) of
                          None \<Rightarrow> None
                        | Some existing_paper \<Rightarrow>
                            if truthy (abstract existing_paper)
                               \<and> truthy (pdf_url existing_paper)
                            then Some existing_paper else None)
                  else None)
           in case early of
                Some existing_paper \<Rightarrow> ([], Inr (Some existing_paper, st))
              | None \<Rightarrow>
                  (case anchor_href title_link of
                     None \<Rightarrow> ([], Inl KeyError)
                   | Some h \<Rightarrow>
                       (case fetch_paper_details h paper_count of
                          None \<Rightarrow> ([h], Inr (None, st))
                        | Some p \<Rightarrow>
                            (case save_paper json_dump p st of
                               Inl e \<Rightarrow> ([h], Inl e)
                             | Inr st' \<Rightarrow> ([h], Inr (Some p, st')))))))"

subsection \<open>The store and the main loop of \<open>iros24.py\<close>\<close>

text \<open>Here the fields have the types the class declares.\<close>

record iros_paper =
  paper_no :: string
  iros_authors :: string
  iros_title :: string
  arxiv_pdf :: "string option"
  arxiv_abstract :: "string option"

definition truthy_str :: "string option \<Rightarrow> bool" where
  "truthy_str v = (case v of None \<Rightarrow> False | Some s \<Rightarrow> s \<noteq> [])"

definition iros_to_dict :: "iros_paper \<Rightarrow> json" where
  "iros_to_dict p =
     (let opt = (\<lambda>v. case v of None \<Rightarrow> JNull | Some s \<Rightarrow> JStr s)
      in JObj [(''paper_no'', JStr (paper_no p)), (''authors'', JStr (iros_authors p)),
               (''title'', JStr (iros_title p)), (''arxiv_pdf'', opt (arxiv_pdf p)),
               (''arxiv_abstract'', opt (arxiv_abstract p))])"

record iros_database =
  iros_filename :: string
  iros_papers :: "(string \<times> iros_paper) list"

definition iros_save_paper ::
  "(json \<Rightarrow> string) \<Rightarrow> iros_paper \<Rightarrow> iros_database \<times> filesystem
   \<Rightarrow> iros_database \<times> filesystem" where
  "iros_save_paper json_dump p st =
     (let db = (fst st)\<lparr>iros_papers := AList.update (paper_no p) p (iros_papers (fst st))\<rparr>;
          papers_data = map (\<lambda>kv. iros_to_dict (snd kv)) (iros_papers db)
      in (db, (snd st)\<lparr>files := (files (snd st))
                                   (iros_filename db \<mapsto> json_dump (JArr papers_data))\<rparr>))"

text \<open>One iteration of the loop of \<open>main\<close>, for one paper of the accepted-papers page.\<close>

definition main_step ::
  "(string \<Rightarrow> string \<Rightarrow> real) \<Rightarrow> (string \<Rightarrow> int \<Rightarrow> string option)
   \<Rightarrow> (string \<Rightarrow> entry list option) \<Rightarrow> (json \<Rightarrow> string)
   \<Rightarrow> iros_paper \<Rightarrow> iros_database \<times> filesystem
   \<Rightarrow> event list \<times> (error + iros_database \<times> filesystem)" where
  "main_step ratio session_get parse_xml json_dump p st =
     (let existing_paper = map_of (iros_papers (fst st)) (paper_no p)
      in if (case existing_paper of None \<Rightarrow> False | Some e \<Rightarrow> truthy_str (arxiv_pdf e))
         then ([], Inr st)
         else
           (case search_arxiv_for_paper ratio session_get parse_xml (iros_title p)
                   (iros_authors p) 5 (4 / 5) of
              (events, Inl e) \<Rightarrow> (events, Inl e)
            | (events, Inr (found_pdf, found_abstract)) \<Rightarrow>
                (let p' = (if truthy_str found_pdf
                           then (if truthy_str found_abstract
                                 then p\<lparr>arxiv_pdf := found_pdf,
                                        arxiv_abstract := found_abstract\<rparr>
                                 else p\<lparr>arxiv_pdf := found_pdf\<rparr>)
                           else p)
                 in (events, Inr (iros_save_paper json_dump p' st)))))"

subsection \<open>Notions used to state the store's properties\<close>

text \<open>
  The completeness invariant as the specification words it: a non-empty abstract and at
  least one non-empty link, the arXiv link or the PDF link.
\<close>

definition is_complete :: "paper \<Rightarrow> bool" where
  "is_complete p = (truthy (abstract p) \<and> (truthy (arxiv_url p) \<or> truthy (pdf_url p)))"

text \<open>
  An element of the persisted document that the loading loop can store, and a document
  that loads without an exception.
\<close>

definition convertible :: "json \<Rightarrow> bool" where
  "convertible d =
     (case from_dict d of
        Inl e \<Rightarrow> False
      | Inr p \<Rightarrow> (case dict_key (title p) of Inl e \<Rightarrow> False | Inr k \<Rightarrow> True))"

definition loads_cleanly :: "(string \<Rightarrow> error + json) \<Rightarrow> string \<Rightarrow> bool" where
  "loads_cleanly json_load content =
     (case json_load content of
        Inl e \<Rightarrow> False
      | Inr data \<Rightarrow>
          (case iterate data of Inl e \<Rightarrow> False | Inr ds \<Rightarrow> list_all convertible ds))"

text \<open>The records, in order, of the elements that precede the first malformed one.\<close>

definition store_record :: "json \<Rightarrow> (key \<times> paper) list \<Rightarrow> (key \<times> paper) list" where
  "store_record d ps =
     (case from_dict d of
        Inl e \<Rightarrow> ps
      | Inr p \<Rightarrow> (case dict_key (title p) of Inl e \<Rightarrow> ps | Inr k \<Rightarrow> AList.update k p ps))"

definition loaded_before_failure ::
  "(string \<Rightarrow> error + json) \<Rightarrow> string \<Rightarrow> (key \<times> paper) list" where
  "loaded_before_failure json_load content =
     (case json_load content of
        Inl e \<Rightarrow> []
      | Inr data \<Rightarrow>
          (case iterate data of
             Inl e \<Rightarrow> []
           | Inr ds \<Rightarrow> fold store_record (takeWhile convertible ds) []))"

subsection \<open>Sample data\<close>

text \<open>
  A document whose first element is a record and whose second lacks the title, with the
  value \<open>json.load\<close> reads from it.
\<close>

definition sample_text :: string where
  \<open>sample_text = ''[{"title": "A", "authors": []}, {"authors": []}]''\<close>

definition sample_doc :: json where
  "sample_doc = JArr [JObj [(''title'', JStr ''A''), (''authors'', JArr [])],
                      JObj [(''authors'', JArr [])]]"

definition sample_json_load :: "string \<Rightarrow> error + json" where
  "sample_json_load s = (if s = sample_text then Inr sample_doc else Inl JSONDecodeError)"

definition sample_fs :: filesystem where
  "sample_fs = \<lparr>dirs = {''dataset''}, files = [''dataset/cvpr25.json'' \<mapsto> sample_text]\<rparr>"

definition sample_arxiv_only :: paper where
  "sample_arxiv_only =
     \<lparr>title = JStr ''A'', authors = JArr [JStr ''Ann He''], paper_id = JInt 1, pdf_url = JNull,
      arxiv_url = JStr ''https://arxiv.org/abs/1'', abstract = JStr ''text'',
      supplemental_url = JNull\<rparr>"

definition sample_full :: paper where
  "sample_full = sample_arxiv_only\<lparr>pdf_url := JStr ''https://example.org/a.pdf''\<rparr>"

definition sample_db :: database where
  "sample_db = \<lparr>output_dir = ''dataset'', filename = ''dataset/cvpr25.json'',
                 papers = [(KStr ''A'', sample_arxiv_only)]\<rparr>"

definition sample_dump :: "json \<Rightarrow> string" where
  "sample_dump j = (case j of JArr xs \<Rightarrow> replicate (length xs) CHR ''x'' | _ \<Rightarrow> [])"

definition sample_anchor :: anchor where
  "sample_anchor = \<lparr>anchor_text = '' A '', anchor_href = Some ''/content/a.html''\<rparr>"

section \<open>Extraction chain: \<open>nature.py\<close> and \<open>science.py\<close>\<close>

text \<open>
  What the function reads of an element that \<open>select_one\<close> or \<open>find\<close> returns: its
  \<open>.string\<close>, its \<open>content\<close> attribute and \<open>get_text(" ", strip=True)\<close>. Of the fetched
  page it reads the \<open>dc.type\<close> meta tag, the authors array found in the raw HTML (the empty
  list when there is none or it does not parse) and the first element matching a selector.
\<close>

record element =
  elem_string :: "string option"
  elem_content :: "string option"
  elem_text :: string

record page =
  find_dc_type :: "element option"
  content_info_authors :: json
  select_one :: "string \<Rightarrow> element option"

definition ABSTRACT_PATTERNS :: "(string \<times> string) list" where
  \<open>ABSTRACT_PATTERNS =
     [(''script[type='application/ld+json']'', ''json_ld''),
      (''meta[name='dc.description'], meta[name='description']'', ''meta''),
      (''#Abs1-content, .Abstracts, .abstr, div[id*='abstract']'', ''html'')]\<close>

text \<open>
  The \<open>json_ld\<close> branch, whose exceptions are all swallowed: \<open>None\<close> when the loop goes on
  to the next pattern. \<open>json_loads\<close> is \<open>json.loads\<close>; \<open>get_text markup\<close> is
  \<open>BeautifulSoup(markup, "html.parser").get_text(" ", strip=True)\<close>.
\<close>

definition json_ld_abstract ::
  "(string \<Rightarrow> error + json) \<Rightarrow> (json \<Rightarrow> error + string) \<Rightarrow> element \<Rightarrow> string option" where
  "json_ld_abstract json_loads get_text el =
     (case json_loads (case elem_string el of
                         None \<Rightarrow> ''{}''
                       | Some s \<Rightarrow> if s = [] then ''{}'' else s) of
        Inl e \<Rightarrow> None
      | Inr data \<Rightarrow>
          (case data of
             JObj kvs \<Rightarrow>
               (let description = dict_get kvs ''description'';
                    candidate =
                      (if truthy description then Inr description
                       else (let main_entity = dict_get kvs ''mainEntity''
                             in case (if truthy main_entity then main_entity else JObj []) of
                                  JObj kvs' \<Rightarrow> Inr (dict_get kvs' ''description'')
                                | _ \<Rightarrow> Inl AttributeError))
                in case candidate of
                     Inl e \<Rightarrow> None
                   | Inr c \<Rightarrow>
                       if truthy c
                       then (case get_text c of Inl e \<Rightarrow> None | Inr text \<Rightarrow> Some text)
                       else None)
           | _ \<Rightarrow> None))"

text \<open>The loop over the patterns: the value of \<open>abstract_text\<close> when it ends.\<close>

fun extract_abstract ::
  "(string \<Rightarrow> error + json) \<Rightarrow> (json \<Rightarrow> error + string) \<Rightarrow> (string \<Rightarrow> element option)
   \<Rightarrow> (string \<times> string) list \<Rightarrow> string option" where
  "extract_abstract json_loads get_text sel [] = None"
| "extract_abstract json_loads get_text sel ((selector, kind) # rest) =
     (case sel selector of
        None \<Rightarrow> extract_abstract json_loads get_text sel rest
      | Some el \<Rightarrow>
          if kind = ''json_ld''
          then (case json_ld_abstract json_loads get_text el of
                  Some text \<Rightarrow> Some text
                | None \<Rightarrow> extract_abstract json_loads get_text sel rest)
          else if kind = ''meta''
          then (case elem_content el of
                  None \<Rightarrow> extract_abstract json_loads get_text sel rest
                | Some content \<Rightarrow>
                    if content \<noteq> [] then Some (strip content)
                    else extract_abstract json_loads get_text sel rest)
          else Some (elem_text el))"

definition startswith :: "string \<Rightarrow> string \<Rightarrow> bool" where
  "startswith s p = (take (length p) s = p)"

text \<open>
  The Crossref fallback. \<open>crossref doi\<close> is the request with \<open>raise_for_status\<close> and
  \<open>.json()\<close>; \<open>strip_jats\<close> is the \<open>re.sub\<close> that removes the JATS tags. Every exception is
  swallowed.
\<close>

definition crossref_abstract ::
  "(json \<Rightarrow> error + string) \<Rightarrow> (string \<Rightarrow> string) \<Rightarrow> (string \<Rightarrow> error + json) \<Rightarrow> string
   \<Rightarrow> string option" where
  "crossref_abstract get_text strip_jats crossref doi =
     (case crossref doi of
        Inl e \<Rightarrow> None
      | Inr body \<Rightarrow>
          (case subscript body ''message'' of
             Inl e \<Rightarrow> None
           | Inr (JObj kvs) \<Rightarrow>
               (let a = dict_get kvs ''abstract''
                in if truthy a
                   then (case a of
                           JStr s \<Rightarrow>
                             (case get_text (JStr (strip_jats s)) of
                                Inl e \<Rightarrow> None
                              | Inr text \<Rightarrow> Some text)
                         | _ \<Rightarrow> None)
                   else None)
           | Inr _ \<Rightarrow> None))"

text \<open>
  \<open>fetch_doi_abstract\<close> of \<open>nature.py\<close>. \<open>get_page url\<close> is the parsed landing page, \<open>None\<close>
  when the request fails.
\<close>

definition fetch_doi_abstract ::
  "(string \<Rightarrow> error + json) \<Rightarrow> (json \<Rightarrow> error + string) \<Rightarrow> (string \<Rightarrow> string)
   \<Rightarrow> (string \<Rightarrow> page option) \<Rightarrow> (string \<Rightarrow> error + json) \<Rightarrow> string
   \<Rightarrow> (string \<times> json) option" where
  "fetch_doi_abstract json_loads get_text strip_jats get_page crossref doi_or_url =
     (let url = (if startswith doi_or_url ''http'' then doi_or_url
                 else ''https://doi.org/'' @ doi_or_url)
      in case get_page url of
           None \<Rightarrow> None
         | Some soup \<Rightarrow>
             (case find_dc_type soup of
                None \<Rightarrow> None
              | Some dc_type \<Rightarrow>
                  if map lower (case elem_content dc_type of None \<Rightarrow> [] | Some c \<Rightarrow> c)
                       \<noteq> ''originalpaper''
                  then None
                  else
                    (let page_text = extract_abstract json_loads get_text (select_one soup)
                                       ABSTRACT_PATTERNS;
                         abstract_text =
                           (if page_text = None \<and> startswith doi_or_url ''10.''
                            then crossref_abstract get_text strip_jats crossref doi_or_url
                            else page_text)
                     in case abstract_text of
                          None \<Rightarrow> None
                        | Some text \<Rightarrow>
                            if text \<noteq> [] then Some (text, content_info_authors soup)
                            else None)))"

text \<open>
  \<open>fetch_doi_abstract\<close> of \<open>science.py\<close>, which asks Crossref only. \<open>find_doi\<close> is the
  \<open>re.search\<close> for a DOI; \<open>author_names\<close> is the list comprehension that formats the
  authors. The handlers catch \<open>RequestException\<close>, \<open>KeyError\<close>, \<open>TypeError\<close> and
  \<open>ValueError\<close>; any other exception leaves the function.
\<close>

definition science_handler :: "error \<Rightarrow> error + 'a option" where
  "science_handler e =
     (if e = KeyError \<or> e = TypeError \<or> e = JSONDecodeError then Inr None else Inl e)"

definition science_fetch_doi_abstract ::
  "(string \<Rightarrow> string option) \<Rightarrow> (string \<Rightarrow> error + json) \<Rightarrow> (json \<Rightarrow> error + string)
   \<Rightarrow> (json \<Rightarrow> error + string list) \<Rightarrow> string
   \<Rightarrow> error + (string \<times> string list) option" where
  "science_fetch_doi_abstract find_doi crossref get_text author_names doi_or_url =
     (case find_doi doi_or_url of
        None \<Rightarrow> Inr None
      | Some doi \<Rightarrow>
          (case crossref doi of
             Inl e \<Rightarrow> Inr None
           | Inr data \<Rightarrow>
               (case data of
                  JObj kvs \<Rightarrow>
                    (case (case map_of kvs ''message'' of None \<Rightarrow> JObj [] | Some m \<Rightarrow> m) of
                       JObj message \<Rightarrow>
                         if dict_get message ''type'' \<noteq> JStr ''journal-article'' then Inr None
                         else
                           (let abstract_html = dict_get message ''abstract''
                            in if \<not> truthy abstract_html then Inr None
                               else
                                 (case get_text abstract_html of
                                    Inl e \<Rightarrow> science_handler e
                                  | Inr abstract_text \<Rightarrow>
                                      (case author_names
                                              (case map_of message ''author'' of
                                                 None \<Rightarrow> JArr [] | Some a \<Rightarrow> a) of
                                         Inl e \<Rightarrow> science_handler e
                                       | Inr names \<Rightarrow>
                                           if abstract_text = [] \<or> names = []
                                              \<or> length abstract_text < 200
                                           then Inr None
                                           else Inr (Some (abstract_text, names)))))
                     | _ \<Rightarrow> Inl AttributeError)
                | _ \<Rightarrow> Inl AttributeError)))"

subsection \<open>Sample data\<close>

text \<open>
  Sample values for the library calls: \<open>json.loads\<close> on the text \<open>{}\<close>, and the text of a
  markup without tags. Two sample pages that declare themselves an original paper: one
  with a blank \<open>description\<close> meta tag and a visible abstract block, one with nothing the
  patterns match.
\<close>

definition sample_json_loads :: "string \<Rightarrow> error + json" where
  "sample_json_loads s = (if s = ''{}'' then Inr (JObj []) else Inl JSONDecodeError)"

definition sample_get_text :: "json \<Rightarrow> error + string" where
  "sample_get_text markup = (case markup of JStr s \<Rightarrow> Inr (strip s) | _ \<Rightarrow> Inl TypeError)"

definition sample_dc_type :: element where
  "sample_dc_type =
     \<lparr>elem_string = None, elem_content = Some ''OriginalPaper'', elem_text = []\<rparr>"

definition sample_blank_meta_page :: page where
  "sample_blank_meta_page =
     \<lparr>find_dc_type = Some sample_dc_type,
      content_info_authors = JArr [JStr ''Ann He''],
      select_one = (\<lambda>selector.
        if selector = fst (ABSTRACT_PATTERNS ! 1)
        then Some \<lparr>elem_string = None, elem_content = Some '' '', elem_text = []\<rparr>
        else if selector = fst (ABSTRACT_PATTERNS ! 2)
        then Some \<lparr>elem_string = Some ''A real abstract.'', elem_content = None,
                   elem_text = ''A real abstract.''\<rparr>
        else None)\<rparr>"

definition sample_bare_page :: page where
  "sample_bare_page =
     \<lparr>find_dc_type = Some sample_dc_type,
      content_info_authors = JArr [JStr ''Ann He''],
      select_one = (\<lambda>selector. None)\<rparr>"

definition sample_crossref :: "string \<Rightarrow> error + json" where
  "sample_crossref doi = Inr (JObj [(''message'', JObj [(''abstract'', JStr ''Short.'')])])"

section \<open>Retrying session: \<open>cvpr.py\<close>\<close>

text \<open>
  \<open>RetryingSession\<close> mounts an \<open>HTTPAdapter\<close> whose \<open>max_retries\<close> is
  \<open>Retry(total=retries, read=retries, connect=retries, backoff_factor, status_forcelist)\<close>
  and \<open>get\<close> delegates to the session. The retrying itself is the library's: the
  connection pool's \<open>urlopen\<close> with \<open>Retry.increment\<close>, \<open>Retry.is_exhausted\<close> and
  \<open>Retry.is_retry\<close>, modelled here for a \<open>GET\<close> whose responses carry no \<open>Retry-After\<close>
  header and are not redirects. The counters \<open>redirect\<close>, \<open>status\<close> and \<open>other\<close> stay
  \<open>None\<close> in this configuration and never count. The sleeps of the backoff are left out.

  \<open>transport k\<close> is the outcome of the attempt number \<open>k\<close>, counted from 0:
  \<open>ConnectError\<close> and \<open>ReadError\<close> are failures inside \<open>urlopen\<close>, before the headers of
  a response arrive; \<open>Response s\<close> is a response with status \<open>s\<close> whose body can be read;
  \<open>BodyError s\<close> is a response with status \<open>s\<close> whose headers arrive and whose body
  cannot be read. The adapter calls \<open>urlopen\<close> with \<open>preload_content=False\<close>, so the body
  is read after the headers: by \<open>drain_conn\<close>, which swallows the failure, when the status
  is retried, and by \<open>Session.send\<close> (\<open>r.content\<close>), which raises it, when \<open>urlopen\<close> has
  returned the response.
\<close>

datatype attempt = ConnectError | ReadError | Response int | BodyError int

record retry =
  retry_total :: int
  retry_connect :: int
  retry_read :: int
  backoff_factor :: real
  status_forcelist :: "int list"

definition Retry :: "int \<Rightarrow> real \<Rightarrow> int list \<Rightarrow> retry" where
  "Retry retries backoff forcelist =
     \<lparr>retry_total = retries, retry_connect = retries, retry_read = retries,
      backoff_factor = backoff, status_forcelist = forcelist\<rparr>"

definition is_exhausted :: "retry \<Rightarrow> bool" where
  "is_exhausted r =
     (let retry_counts = filter (\<lambda>c. c \<noteq> 0) [retry_total r, retry_connect r, retry_read r]
      in if retry_counts = [] then False else Min (set retry_counts) < 0)"

definition increment :: "retry \<Rightarrow> attempt \<Rightarrow> error + retry" where
  "increment r a =
     (let new_retry =
            (case a of
               ConnectError \<Rightarrow>
                 r\<lparr>retry_total := retry_total r - 1, retry_connect := retry_connect r - 1\<rparr>
             | ReadError \<Rightarrow>
                 r\<lparr>retry_total := retry_total r - 1, retry_read := retry_read r - 1\<rparr>
             | Response s \<Rightarrow> r\<lparr>retry_total := retry_total r - 1\<rparr>
             | BodyError s \<Rightarrow> r\<lparr>retry_total := retry_total r - 1\<rparr>)
      in if is_exhausted new_retry then Inl MaxRetryError else Inr new_retry)"

definition is_retry :: "retry \<Rightarrow> int \<Rightarrow> bool" where
  "is_retry r status_code =
     (status_forcelist r \<noteq> [] \<and> status_code \<in> set (status_forcelist r))"

definition retried :: "retry \<Rightarrow> attempt \<Rightarrow> bool" where
  "retried r a =
     (case a of
        Response s \<Rightarrow> is_retry r s
      | BodyError s \<Rightarrow> is_retry r s
      | _ \<Rightarrow> True)"

function urlopen :: "(nat \<Rightarrow> attempt) \<Rightarrow> retry \<Rightarrow> nat \<Rightarrow> nat \<times> (error + attempt)" where
  "urlopen transport r k =
     (if retried r (transport k)
      then (case increment r (transport k) of
              Inl e \<Rightarrow> (Suc k, Inl e)
            | Inr r' \<Rightarrow> urlopen transport r' (Suc k))
      else (Suc k, Inr (transport k)))"
  by pat_completeness auto
termination
proof (relation "measure (\<lambda>(transport, r, k). nat (retry_total r + 1))")
  show "wf (measure (\<lambda>(transport, r, k). nat (retry_total r + 1)))" by simp
next
  fix transport :: "nat \<Rightarrow> attempt" and r :: retry and k :: nat and r' :: retry
  assume "increment r (transport k) = Inr r'"
  then have "retry_total r' = retry_total r - 1 \<and> 0 \<le> retry_total r'"
    by (auto simp: increment_def is_exhausted_def Let_def split: attempt.splits if_splits)
  then show "((transport, r', Suc k), (transport, r, k))
      \<in> measure (\<lambda>(transport, r, k). nat (retry_total r + 1))"
    by simp
qed

text \<open>
  \<open>RetryingSession(retries, backoff_factor, status_forcelist).get\<close>: the number of attempts
  made, and the exception raised or the response returned. The session reads the body of
  the response that \<open>urlopen\<close> returns; a failure there is raised as it is.
\<close>

definition RetryingSession_get ::
  "int \<Rightarrow> real \<Rightarrow> int list \<Rightarrow> (nat \<Rightarrow> attempt) \<Rightarrow> nat \<times> (error + attempt)" where
  "RetryingSession_get retries backoff forcelist transport =
     (case urlopen transport (Retry retries backoff forcelist) 0 of
        (n, Inl e) \<Rightarrow> (n, Inl e)
      | (n, Inr response) \<Rightarrow>
          (case response of
             BodyError s \<Rightarrow> (n, Inl ChunkedEncodingError)
           | _ \<Rightarrow> (n, Inr response)))"






section \<open>Properties of the resolver\<close>

lemma get_last_names_empty: "get_last_names [] = {}"
  by (simp add: get_last_names_def split_sep_def strip_def split_def)

lemma name_texts_wf:
  "list_all (\<lambda>a. case a of Some (Some n) \<Rightarrow> True | _ \<Rightarrow> False) as \<Longrightarrow>
   name_texts as = Inr (map (\<lambda>a. Some (case a of Some (Some n) \<Rightarrow> n | _ \<Rightarrow> [])) as)"
  by (induction as) (auto split: option.splits)

lemma py_join_Some: "py_join sep (map (\<lambda>a. Some (f a)) as) = Inr (join sep (map f as))"
  by (auto simp: py_join_def comp_def)

lemma find_pdf_url_wf:
  "list_all (\<lambda>l. link_title l = Some ''pdf'' \<longrightarrow> link_href l \<noteq> None) ls \<Longrightarrow>
   find_pdf_url ls =
     Inr (case find (\<lambda>l. link_title l = Some ''pdf'') ls of
            None \<Rightarrow> None | Some l \<Rightarrow> link_href l)"
  by (induction ls) (auto split: option.splits)

text \<open>One iteration of the loop on a well-formed candidate.\<close>

lemma search_entries_step:
  assumes "wf_entry e"
  shows "search_entries ratio thr t iros (e # es) =
         (if passes_gates ratio thr t iros e then Inr (entry_fields e)
          else search_entries ratio thr t iros es)"
proof -
  obtain tt where tt: "title_elem e = Some (Some tt)"
    using assms by (auto simp: wf_entry_def split: option.splits)
  have nt: "name_texts (author_elems e) =
            Inr (map (\<lambda>a. Some (case a of Some (Some n) \<Rightarrow> n | _ \<Rightarrow> [])) (author_elems e))"
    using assms by (simp add: wf_entry_def name_texts_wf)
  have fp: "find_pdf_url (link_elems e) = Inr (fst (entry_fields e))"
    using assms by (simp add: wf_entry_def find_pdf_url_wf entry_fields_def)
  have ga: "get_abstract (summary_elem e) = Inr (snd (entry_fields e))"
    using assms
    by (auto simp: wf_entry_def get_abstract_def entry_fields_def split: option.splits)
  show ?thesis
  proof (cases "author_elems e = []")
    case True
    then have "entry_last_names e = {}"
      by (simp add: entry_last_names_def get_last_names_empty)
    then show ?thesis using tt True
      by (simp add: passes_gates_def entry_similarity_def)
  next
    case False
    then show ?thesis using tt nt fp ga
      by (simp add: passes_gates_def entry_similarity_def py_join_Some entry_last_names_def)
  qed
qed

lemma search_entries_find:
  "\<forall>e\<in>set es. wf_entry e \<Longrightarrow>
   search_entries ratio thr t iros es =
     (case find (passes_gates ratio thr t iros) es of
        None \<Rightarrow> Inr (None, None) | Some e \<Rightarrow> Inr (entry_fields e))"
proof (induction es)
  case Nil
  show ?case by simp
next
  case (Cons e es)
  then show ?case by (simp add: search_entries_step del: search_entries.simps)
qed

lemma search_entries_first:
  assumes "\<forall>x\<in>set pre. wf_entry x \<and> \<not> passes_gates ratio thr t iros x"
    and "wf_entry e" and "passes_gates ratio thr t iros e"
  shows "search_entries ratio thr t iros (pre @ e # post) = Inr (entry_fields e)"
  using assms by (induction pre) (simp_all add: search_entries_step del: search_entries.simps)

lemma search_entries_no_names:
  "\<forall>e\<in>set es. wf_entry e \<Longrightarrow> search_entries ratio thr t {} es = Inr (None, None)"
  by (induction es)
     (simp_all add: search_entries_step passes_gates_def del: search_entries.simps(2))

text \<open>
  C1. On candidates that conform to source B's interface, the resolver returns no match
  when every candidate fails a gate: a candidate whose title similarity is below the
  threshold is rejected whatever its authors, one whose last names are disjoint from
  source A's is rejected whatever its similarity. A result other than no match is the
  PDF link and abstract of a candidate that passes both gates.
\<close>

theorem resolver_requires_both_gates:
  assumes "\<forall>e\<in>set es. wf_entry e"
  shows "((\<forall>e\<in>set es. entry_similarity ratio t e < thr \<or> iros \<inter> entry_last_names e = {})
            \<longrightarrow> search_entries ratio thr t iros es = Inr (None, None))
         \<and> (search_entries ratio thr t iros es = Inr (None, None)
            \<or> (\<exists>e\<in>set es. \<not> entry_similarity ratio t e < thr
                  \<and> iros \<inter> entry_last_names e \<noteq> {}
                  \<and> search_entries ratio thr t iros es = Inr (entry_fields e)))"
proof (cases "find (passes_gates ratio thr t iros) es")
  case None
  then have "\<forall>e\<in>set es. \<not> passes_gates ratio thr t iros e"
    by (simp add: find_None_iff)
  then show ?thesis using assms None
    by (simp add: search_entries_find)
next
  case (Some e)
  then have "e \<in> set es" and "passes_gates ratio thr t iros e"
    by (auto simp: find_Some_iff)
  then show ?thesis using assms Some
    by (auto simp: search_entries_find passes_gates_def)
qed

theorem resolver_requires_both_gates_witness:
  "wf_entry sample_other_authors \<and> wf_entry sample_other_title
   \<and> \<not> entry_similarity sample_ratio ''Deep Nets'' sample_other_authors < 4 / 5
   \<and> get_last_names ''Ann He'' \<inter> entry_last_names sample_other_title \<noteq> {}
   \<and> search_entries sample_ratio (4 / 5) ''Deep Nets'' (get_last_names ''Ann He'')
        [sample_other_authors, sample_other_title] = Inr (None, None)"
proof -
  have wf: "\<forall>e\<in>set [sample_other_authors, sample_other_title]. wf_entry e"
    by code_simp
  have gates: "\<forall>e\<in>set [sample_other_authors, sample_other_title].
      entry_similarity sample_ratio ''Deep Nets'' e < 4 / 5
      \<or> get_last_names ''Ann He'' \<inter> entry_last_names e = {}"
    by code_simp
  have high: "\<not> entry_similarity sample_ratio ''Deep Nets'' sample_other_authors < 4 / 5"
    by code_simp
  have overlap: "get_last_names ''Ann He'' \<inter> entry_last_names sample_other_title \<noteq> {}"
    by code_simp
  from resolver_requires_both_gates [OF wf, of sample_ratio "''Deep Nets''" "4 / 5"
      "get_last_names ''Ann He''"] gates
  have "search_entries sample_ratio (4 / 5) ''Deep Nets'' (get_last_names ''Ann He'')
          [sample_other_authors, sample_other_title] = Inr (None, None)"
    by blast
  with wf high overlap show ?thesis by simp
qed

text \<open>
  C5. The resolver returns the PDF link and abstract of the first candidate, in the order
  of the list, that passes both gates; the candidates after it, whatever their
  similarity, are not looked at.
\<close>

theorem resolver_returns_first_passing:
  assumes "\<forall>x\<in>set pre. wf_entry x
             \<and> (entry_similarity ratio t x < thr \<or> iros \<inter> entry_last_names x = {})"
    and "wf_entry e"
    and "\<not> entry_similarity ratio t e < thr"
    and "iros \<inter> entry_last_names e \<noteq> {}"
  shows "search_entries ratio thr t iros (pre @ e # post) = Inr (entry_fields e)"
proof -
  have "\<forall>x\<in>set pre. wf_entry x \<and> \<not> passes_gates ratio thr t iros x"
    using assms(1) by (auto simp: passes_gates_def)
  moreover have "passes_gates ratio thr t iros e"
    using assms(3,4) by (simp add: passes_gates_def)
  ultimately show ?thesis
    using assms(2) by (simp add: search_entries_first)
qed

theorem resolver_returns_first_passing_witness:
  "entry_similarity sample_ratio ''Deep Nets'' sample_close
     < entry_similarity sample_ratio ''Deep Nets'' sample_exact
   \<and> \<not> entry_similarity sample_ratio ''Deep Nets'' sample_exact < 4 / 5
   \<and> get_last_names ''Ann He'' \<inter> entry_last_names sample_exact \<noteq> {}
   \<and> search_entries sample_ratio (4 / 5) ''Deep Nets'' (get_last_names ''Ann He'')
        ([sample_other_authors] @ sample_close # [sample_exact])
      = Inr (Some ''u3'', Some ''s3'')"
proof -
  have pre: "\<forall>x\<in>set [sample_other_authors]. wf_entry x
      \<and> (entry_similarity sample_ratio ''Deep Nets'' x < 4 / 5
         \<or> get_last_names ''Ann He'' \<inter> entry_last_names x = {})"
    by code_simp
  have wf: "wf_entry sample_close"
    by code_simp
  have title: "\<not> entry_similarity sample_ratio ''Deep Nets'' sample_close < 4 / 5"
    by code_simp
  have authors: "get_last_names ''Ann He'' \<inter> entry_last_names sample_close \<noteq> {}"
    by code_simp
  have fields: "entry_fields sample_close = (Some ''u3'', Some ''s3'')"
    by code_simp
  have later: "entry_similarity sample_ratio ''Deep Nets'' sample_close
        < entry_similarity sample_ratio ''Deep Nets'' sample_exact
      \<and> \<not> entry_similarity sample_ratio ''Deep Nets'' sample_exact < 4 / 5
      \<and> get_last_names ''Ann He'' \<inter> entry_last_names sample_exact \<noteq> {}"
    by code_simp
  from resolver_returns_first_passing [OF pre wf title authors, of "[sample_exact]"] fields later
  show ?thesis by simp
qed

subsection \<open>Blank author strings\<close>

lemma split_sep_acc_chars:
  "x \<in> set (split_sep_acc sep w s) \<Longrightarrow> set x \<subseteq> set w \<union> (set s - {sep})"
proof (induction s arbitrary: w)
  case Nil
  then show ?case by simp
next
  case (Cons c cs)
  then show ?case by (fastforce split: if_splits)
qed

lemma strip_all_space: "\<forall>c\<in>set s. isspace c \<Longrightarrow> strip s = []"
  by (auto simp: strip_def dest: set_dropWhileD)

lemma fold_no_parts:
  "\<forall>a\<in>set as. split (strip a) = [] \<Longrightarrow>
   fold (\<lambda>author last_names.
           if split (strip author) \<noteq> []
           then insert (normalize_author_name (last (split (strip author)))) last_names
           else last_names) as S = S"
  by (induction as arbitrary: S) simp_all

lemma get_last_names_blank:
  assumes "\<forall>c\<in>set s. isspace c \<or> c = CHR '',''"
  shows "get_last_names s = {}"
proof -
  have "\<forall>p\<in>set (split_sep CHR '','' s). \<forall>c\<in>set p. isspace c"
    using assms split_sep_acc_chars [of _ "CHR '',''" "[]" s]
    by (fastforce simp: split_sep_def)
  then have "\<forall>a\<in>set (map strip (split_sep CHR '','' s)). split (strip a) = []"
    by (simp add: strip_all_space split_def)
  then show ?thesis
    by (simp add: get_last_names_def Let_def fold_no_parts)
qed

text \<open>
  C10. When the author string of the source-A record consists of whitespace and commas
  only (or is empty), its set of last names is empty, and the resolver returns no match
  for every list of candidates that conform to source B's interface, whatever the title
  similarity: both the loop and the whole function return \<open>(None, None)\<close>.
\<close>

theorem blank_authors_never_match:
  assumes "\<forall>c\<in>set paper_authors. isspace c \<or> c = CHR '',''"
    and "\<forall>e\<in>set es. wf_entry e"
  shows "get_last_names paper_authors = {}
         \<and> search_entries ratio thr t (get_last_names paper_authors) es = Inr (None, None)
         \<and> snd (search_arxiv_for_paper ratio session_get (\<lambda>txt. Some es) t paper_authors k thr)
             = Inr (None, None)"
proof -
  have empty: "get_last_names paper_authors = {}"
    using assms(1) by (rule get_last_names_blank)
  have loop: "search_entries ratio thr t (get_last_names paper_authors) es = Inr (None, None)"
    using assms(2) by (simp add: empty search_entries_no_names)
  have "snd (search_arxiv_for_paper ratio session_get (\<lambda>txt. Some es) t paper_authors k thr)
          = Inr (None, None)"
    using loop by (simp add: search_arxiv_for_paper_def Let_def split: option.splits)
  with empty loop show ?thesis by simp
qed

theorem blank_authors_never_match_witness:
  "\<not> entry_similarity sample_ratio ''Deep Nets'' sample_exact < 4 / 5
   \<and> get_last_names '' , ,'' = {}
   \<and> search_entries sample_ratio (4 / 5) ''Deep Nets'' (get_last_names '' , ,'')
        [sample_exact] = Inr (None, None)"
proof -
  have blank: "\<forall>c\<in>set '' , ,''. isspace c \<or> c = CHR '',''"
    by code_simp
  have wf: "\<forall>e\<in>set [sample_exact]. wf_entry e"
    by code_simp
  have high: "\<not> entry_similarity sample_ratio ''Deep Nets'' sample_exact < 4 / 5"
    by code_simp
  from blank_authors_never_match [OF blank wf, of sample_ratio "4 / 5" "''Deep Nets''"] high
  show ?thesis by blast
qed

subsection \<open>The courtesy delay\<close>

lemma sleep_after_successful_get:
  "session_get (''ti:'' @ t) k = Some txt \<Longrightarrow>
   fst (search_arxiv_for_paper ratio session_get parse_xml t a k thr)
     = [HttpGet (''ti:'' @ t) k, Sleep 3]"
  by (simp add: search_arxiv_for_paper_def Let_def)

lemma no_sleep_after_failed_get:
  "session_get (''ti:'' @ t) k = None \<Longrightarrow>
   search_arxiv_for_paper ratio session_get parse_xml t a k thr
     = ([HttpGet (''ti:'' @ t) k], Inr (None, None))"
  by (simp add: search_arxiv_for_paper_def Let_def)

text \<open>
  C7. When the request fails, \<open>search_arxiv_for_paper\<close> returns from its exception handler
  before it reaches \<open>time.sleep(3)\<close>: the trace of a call against a transport that fails
  holds the HTTP call and no sleep.
\<close>

theorem failed_request_skips_courtesy_delay:
  "search_arxiv_for_paper sample_ratio (\<lambda>query max_results. None) (\<lambda>txt. None)
     ''Deep Nets'' ''Ann He'' 5 (4 / 5)
   = ([HttpGet ''ti:Deep Nets'' 5], Inr (None, None))"
  by (simp add: search_arxiv_for_paper_def Let_def)

section \<open>Properties of the record store\<close>

lemma load_loop_fst: "(fst (load_loop ds ps) = None) = list_all convertible ds"
  by (induction ds arbitrary: ps) (auto simp: convertible_def split: sum.splits)

lemma load_loop_snd:
  "snd (load_loop ds ps) = fold store_record (takeWhile convertible ds) ps"
  by (induction ds arbitrary: ps)
     (auto simp: convertible_def store_record_def split: sum.splits)

lemma backup_name_differs: "f @ ''.bak.'' @ stamp \<noteq> f"
proof
  assume "f @ ''.bak.'' @ stamp = f"
  then have "length (f @ ''.bak.'' @ stamp) = length f" by simp
  then show False by simp
qed

lemma load_existing_papers_failure:
  assumes "files fs (filename db) = Some content"
    and "\<not> loads_cleanly json_load content"
    and "papers db = []"
  shows "files (snd (load_existing_papers json_load stamp (db, fs)))
           (filename db @ ''.bak.'' @ stamp) = Some content"
    and "files (snd (load_existing_papers json_load stamp (db, fs))) (filename db) = None"
    and "\<forall>f. f \<noteq> filename db \<and> f \<noteq> filename db @ ''.bak.'' @ stamp
           \<longrightarrow> files (snd (load_existing_papers json_load stamp (db, fs))) f = files fs f"
    and "papers (fst (load_existing_papers json_load stamp (db, fs)))
           = loaded_before_failure json_load content"
    and "filename (fst (load_existing_papers json_load stamp (db, fs))) = filename db"
  using assms backup_name_differs [of "filename db" stamp]
  by (auto simp: load_existing_papers_def loads_cleanly_def loaded_before_failure_def Let_def
        load_loop_fst load_loop_snd
      split: sum.splits option.splits)

lemma load_loop_clean: "list_all convertible ds \<Longrightarrow> fst (load_loop ds ps) = None"
  by (simp add: load_loop_fst)

text \<open>A document that loads without an exception is left where it is.\<close>

lemma load_existing_papers_clean:
  assumes "files fs (filename db) = Some content" and "loads_cleanly json_load content"
  shows "files (snd (load_existing_papers json_load stamp (db, fs))) = files fs"
  using assms
  by (auto simp: load_existing_papers_def loads_cleanly_def Let_def load_loop_clean
      split: sum.splits)

text \<open>
  C2, as the code has it. When the persisted document is malformed (loading it raises),
  constructing the store returns normally, the file is gone from its name and a backup
  named \<open><name>.bak.<timestamp>\<close> holds its original bytes, no other file is touched, and
  the in-memory mapping holds the records loaded before the first malformed element: it is
  empty when the document does not parse at all.
\<close>

theorem load_failure_backs_up:
  assumes "files fs (path_join dir (''cvpr'' @ yy @ ''.json'')) = Some content"
    and "\<not> loads_cleanly json_load content"
  shows "filename (fst (PaperDatabase json_load stamp dir yy fs))
           = path_join dir (''cvpr'' @ yy @ ''.json'')
         \<and> files (snd (PaperDatabase json_load stamp dir yy fs))
             (path_join dir (''cvpr'' @ yy @ ''.json'') @ ''.bak.'' @ stamp) = Some content
         \<and> files (snd (PaperDatabase json_load stamp dir yy fs))
             (path_join dir (''cvpr'' @ yy @ ''.json'')) = None
         \<and> (\<forall>f. f \<noteq> path_join dir (''cvpr'' @ yy @ ''.json'')
                 \<and> f \<noteq> path_join dir (''cvpr'' @ yy @ ''.json'') @ ''.bak.'' @ stamp
               \<longrightarrow> files (snd (PaperDatabase json_load stamp dir yy fs)) f = files fs f)
         \<and> papers (fst (PaperDatabase json_load stamp dir yy fs))
             = loaded_before_failure json_load content
         \<and> (isl (json_load content)
               \<longrightarrow> papers (fst (PaperDatabase json_load stamp dir yy fs)) = [])"
proof -
  let ?db = "\<lparr>output_dir = dir, filename = path_join dir (''cvpr'' @ yy @ ''.json''),
              papers = []\<rparr>"
  have present: "files fs (filename ?db) = Some content" using assms(1) by simp
  have empty: "papers ?db = []" by simp
  note facts = load_existing_papers_failure [OF present assms(2) empty, of stamp]
  have unparsed: "isl (json_load content) \<longrightarrow> loaded_before_failure json_load content = []"
    by (auto simp: loaded_before_failure_def isl_def)
  show ?thesis
    unfolding PaperDatabase_def using facts unparsed by simp
qed

theorem load_failure_backs_up_witness:
  "\<not> loads_cleanly sample_json_load sample_text
   \<and> files (snd (PaperDatabase sample_json_load ''20250101_000000'' ''dataset'' ''25'' sample_fs))
       ''dataset/cvpr25.json.bak.20250101_000000'' = Some sample_text
   \<and> files (snd (PaperDatabase sample_json_load ''20250101_000000'' ''dataset'' ''25'' sample_fs))
       ''dataset/cvpr25.json'' = None"
proof -
  have name: "path_join ''dataset'' (''cvpr'' @ ''25'' @ ''.json'') = ''dataset/cvpr25.json''"
    by code_simp
  have present: "files sample_fs (path_join ''dataset'' (''cvpr'' @ ''25'' @ ''.json''))
                = Some sample_text"
    unfolding name by (simp add: sample_fs_def)
  have bad: "\<not> loads_cleanly sample_json_load sample_text"
    by code_simp
  from load_failure_backs_up [OF present bad, of "''20250101_000000''"] bad
  show ?thesis unfolding name by simp
qed

text \<open>
  The claim as the specification states it fails: the sample document is malformed (its
  second element has no title), yet after construction the mapping holds the record of
  its first element.
\<close>

theorem load_failure_keeps_partial_mapping_counterexample:
  "\<not> loads_cleanly sample_json_load sample_text
   \<and> map fst (papers (fst (PaperDatabase sample_json_load ''20250101_000000'' ''dataset''
                            ''25'' sample_fs))) = [KStr ''A'']"
  by code_simp

subsection \<open>Upsert\<close>

lemma save_paper_Inr:
  assumes "save_paper json_dump p (db, fs) = Inr (db1, fs1)"
  obtains k where "dict_key (title p) = Inr k"
    and "db1 = db\<lparr>papers := AList.update k p (papers db)\<rparr>"
    and "fs1 = fs\<lparr>files := (files fs)(filename db \<mapsto>
                 json_dump (JArr (map (\<lambda>kv. to_dict (snd kv))
                                    (AList.update k p (papers db)))))\<rparr>"
  using assms
  by (auto simp: save_paper_def save_to_file_def Let_def split: sum.splits)

text \<open>A title that cannot be a key raises, and the store is as before.\<close>

lemma save_paper_error:
  "save_paper json_dump p st = Inl e \<Longrightarrow> dict_key (title p) = Inl e"
  by (auto simp: save_paper_def split: sum.splits)

text \<open>
  C8. After \<open>save_paper\<close> of a record, a second \<open>save_paper\<close> of the same record leaves the
  in-memory mapping and the file system, hence the persisted document, exactly as they
  are. The first call puts the record under its key, replacing the record that was there
  and keeping every other key and the order of the keys, and writes the whole mapping to
  the store's file, touching no other file.
\<close>

theorem upsert_idempotent:
  assumes "save_paper json_dump p (db, fs) = Inr (db1, fs1)"
  shows "save_paper json_dump p (db1, fs1) = Inr (db1, fs1)
         \<and> (\<exists>k. dict_key (title p) = Inr k
               \<and> map_of (papers db1) = (map_of (papers db))(k \<mapsto> p)
               \<and> map fst (papers db1) =
                   (if k \<in> set (map fst (papers db)) then map fst (papers db)
                    else map fst (papers db) @ [k]))
         \<and> files fs1 (filename db1)
             = Some (json_dump (JArr (map (\<lambda>kv. to_dict (snd kv)) (papers db1))))
         \<and> (\<forall>f. f \<noteq> filename db \<longrightarrow> files fs1 f = files fs f)"
proof -
  from assms obtain k where k: "dict_key (title p) = Inr k"
    and db1: "db1 = db\<lparr>papers := AList.update k p (papers db)\<rparr>"
    and fs1: "fs1 = fs\<lparr>files := (files fs)(filename db \<mapsto>
                 json_dump (JArr (map (\<lambda>kv. to_dict (snd kv))
                                    (AList.update k p (papers db)))))\<rparr>"
    by (rule save_paper_Inr)
  have again: "save_paper json_dump p (db1, fs1) = Inr (db1, fs1)"
    by (simp add: save_paper_def save_to_file_def k db1 fs1)
  have mapping: "map_of (papers db1) = (map_of (papers db))(k \<mapsto> p)"
    by (simp add: db1 update_conv')
  have order: "map fst (papers db1) =
      (if k \<in> set (map fst (papers db)) then map fst (papers db) else map fst (papers db) @ [k])"
    by (simp add: db1 update_keys)
  have written: "files fs1 (filename db1)
      = Some (json_dump (JArr (map (\<lambda>kv. to_dict (snd kv)) (papers db1))))"
    by (simp add: db1 fs1)
  have others: "\<forall>f. f \<noteq> filename db \<longrightarrow> files fs1 f = files fs f"
    by (simp add: fs1)
  from again k mapping order written others show ?thesis by blast
qed

theorem upsert_idempotent_witness:
  "\<exists>db1 fs1. save_paper sample_dump sample_full (sample_db, sample_fs) = Inr (db1, fs1)
     \<and> save_paper sample_dump sample_full (db1, fs1) = Inr (db1, fs1)
     \<and> map snd (papers db1) = [sample_full]"
proof -
  obtain db1 fs1 where first: "save_paper sample_dump sample_full (sample_db, sample_fs)
      = Inr (db1, fs1)" and db1: "db1 = sample_db\<lparr>papers := [(KStr ''A'', sample_full)]\<rparr>"
    by (simp add: save_paper_def save_to_file_def sample_full_def sample_arxiv_only_def
        sample_db_def)
  from upsert_idempotent [OF first] db1 first show ?thesis by auto
qed

subsection \<open>The completeness check\<close>

text \<open>
  C3, as the specification states it, fails on the code: the sample record has a
  non-empty abstract and a non-empty arXiv link, so the specification's invariant holds
  of it, yet \<open>process_paper_element\<close> does not skip it and fetches its page again.
\<close>

theorem completeness_check_counterexample:
  "is_complete sample_arxiv_only
   \<and> map_of (papers sample_db) (KStr ''A'') = Some sample_arxiv_only
   \<and> fst (process_paper_element sample_dump (\<lambda>h n. None) 1 (Some sample_anchor)
            (sample_db, sample_fs)) = [''/content/a.html'']"
  by code_simp

text \<open>
  C3, as the code has it. \<open>process_paper_element\<close> skips an element (fetches nothing and
  returns the stored record, the store unchanged) exactly when the record stored under
  its title has a non-empty abstract and a non-empty PDF link; the arXiv link plays no
  part. The loop of \<open>iros24.py\<close> skips a paper (makes no request) exactly when the record
  stored under its number has a non-empty arXiv PDF link; the abstract plays no part.
\<close>

theorem skip_iff_abstract_and_pdf:
  assumes "anchor_href a = Some h"
  shows "((fst (process_paper_element json_dump fetch n (Some a) (db, fs)) = [])
          = (\<exists>p. map_of (papers db) (KStr (join '' '' (split (strip (anchor_text a))))) = Some p
                \<and> truthy (abstract p) \<and> truthy (pdf_url p)))
         \<and> (\<forall>p. map_of (papers db) (KStr (join '' '' (split (strip (anchor_text a))))) = Some p
                \<and> truthy (abstract p) \<and> truthy (pdf_url p)
              \<longrightarrow> process_paper_element json_dump fetch n (Some a) (db, fs)
                    = ([], Inr (Some p, (db, fs))))
         \<and> ((fst (main_step ratio session_get parse_xml json_dump q (idb, fs)) = [])
             = (\<exists>e. map_of (iros_papers idb) (paper_no q) = Some e \<and> truthy_str (arxiv_pdf e)))"
proof -
  have skip: "(fst (process_paper_element json_dump fetch n (Some a) (db, fs)) = [])
      = (\<exists>p. map_of (papers db) (KStr (join '' '' (split (strip (anchor_text a))))) = Some p
            \<and> truthy (abstract p) \<and> truthy (pdf_url p))"
    using assms
    by (auto simp: process_paper_element_def Let_def has_paper_def
        split: option.splits sum.splits)
  have result: "\<forall>p. map_of (papers db) (KStr (join '' '' (split (strip (anchor_text a))))) = Some p
        \<and> truthy (abstract p) \<and> truthy (pdf_url p)
      \<longrightarrow> process_paper_element json_dump fetch n (Some a) (db, fs)
            = ([], Inr (Some p, (db, fs)))"
    by (auto simp: process_paper_element_def Let_def has_paper_def
        split: option.splits sum.splits)
  have iros: "(fst (main_step ratio session_get parse_xml json_dump q (idb, fs)) = [])
      = (\<exists>e. map_of (iros_papers idb) (paper_no q) = Some e \<and> truthy_str (arxiv_pdf e))"
    by (auto simp: main_step_def Let_def search_arxiv_for_paper_def
        split: option.splits sum.splits prod.splits)
  from skip result iros show ?thesis by blast
qed

theorem skip_iff_abstract_and_pdf_witness:
  "truthy (abstract sample_full) \<and> truthy (pdf_url sample_full)
   \<and> process_paper_element sample_dump (\<lambda>h n. None) 1 (Some sample_anchor)
       (sample_db\<lparr>papers := [(KStr ''A'', sample_full)]\<rparr>, sample_fs)
     = ([], Inr (Some sample_full, (sample_db\<lparr>papers := [(KStr ''A'', sample_full)]\<rparr>, sample_fs)))"
proof -
  have href: "anchor_href sample_anchor = Some ''/content/a.html''"
    by (simp add: sample_anchor_def)
  have stored: "map_of (papers (sample_db\<lparr>papers := [(KStr ''A'', sample_full)]\<rparr>))
        (KStr (join '' '' (split (strip (anchor_text sample_anchor))))) = Some sample_full"
    by code_simp
  have full: "truthy (abstract sample_full) \<and> truthy (pdf_url sample_full)"
    by code_simp
  from skip_iff_abstract_and_pdf [OF href, of sample_dump "\<lambda>h n. None" 1
      "sample_db\<lparr>papers := [(KStr ''A'', sample_full)]\<rparr>" sample_fs] stored full
  show ?thesis by blast
qed

section \<open>Properties of the extraction chain\<close>

text \<open>
  The patterns are tried in the order in which they are declared, and a value of the
  JSON-LD block wins over whatever the later patterns would find.
\<close>

lemma extract_abstract_json_ld_first:
  assumes "sel (fst (ABSTRACT_PATTERNS ! 0)) = Some el"
    and "json_ld_abstract json_loads get_text el = Some text"
  shows "extract_abstract json_loads get_text sel ABSTRACT_PATTERNS = Some text"
  using assms by (simp add: ABSTRACT_PATTERNS_def)

lemma extract_abstract_meta_second:
  assumes "sel (fst (ABSTRACT_PATTERNS ! 0)) = None"
    and "sel (fst (ABSTRACT_PATTERNS ! 1)) = Some el"
    and "elem_content el = Some content" and "content \<noteq> []"
  shows "extract_abstract json_loads get_text sel ABSTRACT_PATTERNS = Some (strip content)"
  using assms by (simp add: ABSTRACT_PATTERNS_def)

text \<open>When the loop leaves \<open>abstract_text\<close> unset, no pattern has produced a value.\<close>

lemma extract_abstract_None:
  assumes "extract_abstract json_loads get_text sel ABSTRACT_PATTERNS = None"
  shows "sel (fst (ABSTRACT_PATTERNS ! 2)) = None
         \<and> (\<forall>el. sel (fst (ABSTRACT_PATTERNS ! 0)) = Some el
               \<longrightarrow> json_ld_abstract json_loads get_text el = None)
         \<and> (\<forall>el content. sel (fst (ABSTRACT_PATTERNS ! 1)) = Some el
               \<and> elem_content el = Some content \<longrightarrow> content = [])"
  using assms
  by (auto simp: ABSTRACT_PATTERNS_def split: option.splits if_splits)

text \<open>
  C4. On the sample page the \<open>description\<close> meta tag holds one blank and the visible
  abstract block holds a text. The block alone yields that text, but the chain stops at
  the meta tag, whose content is non-empty before \<open>strip\<close> and empty after it, and the
  function returns no abstract although a later pattern has one.
\<close>

theorem blank_meta_stops_chain:
  "extract_abstract sample_json_loads sample_get_text (select_one sample_blank_meta_page)
       [ABSTRACT_PATTERNS ! 2] = Some ''A real abstract.''
   \<and> extract_abstract sample_json_loads sample_get_text (select_one sample_blank_meta_page)
       ABSTRACT_PATTERNS = Some []
   \<and> fetch_doi_abstract sample_json_loads sample_get_text id
       (\<lambda>url. Some sample_blank_meta_page) sample_crossref ''https://doi.org/10.1000/x''
     = None"
  by code_simp

subsection \<open>The Crossref fallback\<close>

text \<open>Crossref is not asked when the page has produced a value.\<close>

lemma crossref_only_after_page:
  assumes "get_page (if startswith d ''http'' then d else ''https://doi.org/'' @ d) = Some soup"
    and "extract_abstract json_loads get_text (select_one soup) ABSTRACT_PATTERNS = Some text"
  shows "fetch_doi_abstract json_loads get_text strip_jats get_page crossref d
         = fetch_doi_abstract json_loads get_text strip_jats get_page crossref' d"
  using assms by (simp add: fetch_doi_abstract_def Let_def split: option.splits)

text \<open>\<open>science.py\<close> returns no abstract shorter than 200 characters.\<close>

lemma science_min_length:
  "science_fetch_doi_abstract find_doi crossref get_text author_names doi_or_url
     = Inr (Some (abstract_text, names)) \<Longrightarrow> 200 \<le> length abstract_text"
  by (auto simp: science_fetch_doi_abstract_def science_handler_def Let_def
      split: option.splits sum.splits json.splits if_splits)

text \<open>
  C9. In \<open>nature.py\<close> the fallback has no minimum length: for a DOI whose page yields no
  abstract and for which Crossref answers with the six characters \<open>Short.\<close>, the function
  returns that text.
\<close>

theorem nature_accepts_short_crossref_abstract:
  "fetch_doi_abstract sample_json_loads sample_get_text id (\<lambda>url. Some sample_bare_page)
       sample_crossref ''10.1000/x'' = Some (''Short.'', JArr [JStr ''Ann He''])"
  by code_simp

section \<open>Properties of the retrying session\<close>








text \<open>A readable response whose status is not retryable is returned at once.\<close>

lemma urlopen_success:
  "transport 0 = Response s \<Longrightarrow> s \<notin> set forcelist \<Longrightarrow>
   RetryingSession_get R backoff forcelist transport = (1, Inr (Response s))"
  by (simp add: RetryingSession_get_def Retry_def retried_def is_retry_def)




end
